theory Spec2Isabelle
  imports Complex_Main "HOL-Library.Sublist"
begin

section \<open>The agent reliability tester: data, effects and errors\<close>

text \<open>
  The development embeds \<^verbatim>\<open>agent_reliability/llm_client.py\<close> and
  \<^verbatim>\<open>agent_reliability/reliability_tester.py\<close>.

  Python strings are modelled as HOL strings, so a character is a code point below 256.
  Dictionaries whose iteration order the code relies on (\<^verbatim>\<open>content.items()\<close>) are
  association lists; the others are maps. Everything outside the two modules (the agent
  under test, the HTTP endpoint of the judge, \<^verbatim>\<open>str.format\<close>, the clock, the YAML
  loader, the file system's permissions) is a field of the record \<open>env\<close>, and every
  theorem holds for every \<open>env\<close>. Progress lines printed to stdout are left out.
\<close>

subsection \<open>Errors\<close>

datatype error =
    KeyError string
  | IndexError
  | LookupError
  | ValueError string
  | APIError string
  | OSError string
  | OtherError string

subsection \<open>The judge client, the configuration and the test data\<close>

datatype provider = OpenAI | Anthropic

record client =
  provider :: provider
  model :: string
  api_key :: string
  api_url :: string

record response =
  status_code :: nat
  body_text :: string
  content :: "string option"

record config =
  llm_provider :: string
  llm_model :: string
  repeat_count :: int
  max_tokens_per_call :: int
  report_path :: "string option"

record tester =
  cfg :: config
  llm_client :: client

type_synonym prompt = "string \<rightharpoonup> string"

type_synonym document = "string \<rightharpoonup> prompt list"

record prompt_result =
  prompt :: prompt
  visibility_evaluation :: string
  repeatability_evaluation :: string
  report :: string

subsection \<open>Effects\<close>

text \<open>
  \<open>trace\<close> lists, oldest first, what the run did to the outside world: a query sent to the
  agent, a request posted to the judge (endpoint, model, prompt, \<^verbatim>\<open>max_tokens\<close>), a
  pause, a file written. \<open>calls\<close> is instrumentation: it records the arguments with which
  \<^verbatim>\<open>evaluate_visibility\<close> and \<^verbatim>\<open>evaluate_repeatability\<close> are entered. The outside
  world answers as a function of the trace so far, which makes it as unconstrained as a
  deterministic model allows.
\<close>

datatype event =
    AgentQuery string
  | HttpPost string string string int
  | Sleep nat
  | FileWrite string string

datatype call =
    EvaluateVisibility string string
  | EvaluateRepeatability string "string list"

record world =
  trace :: "event list"
  calls :: "call list"
  files :: "string \<rightharpoonup> string"

record env =
  agent :: "event list \<Rightarrow> string \<Rightarrow> error + string"
  http :: "event list \<Rightarrow> client \<Rightarrow> string \<Rightarrow> int \<Rightarrow> error + response"
  format :: "string \<Rightarrow> (string \<times> string) list \<Rightarrow> error + string"
  strftime :: "event list \<Rightarrow> string"
  yaml_load :: "string \<Rightarrow> error + document"
  writable :: "string \<Rightarrow> bool"

type_synonym 'a io = "world \<Rightarrow> (error + 'a) \<times> world"

definition io_return :: "'a \<Rightarrow> 'a io" where
  "io_return x w = (Inr x, w)"

definition io_raise :: "error \<Rightarrow> 'a io" where
  "io_raise e w = (Inl e, w)"

definition io_bind :: "'a io \<Rightarrow> ('a \<Rightarrow> 'b io) \<Rightarrow> 'b io" where
  "io_bind m f w = (case m w of (Inl e, w') \<Rightarrow> (Inl e, w') | (Inr x, w') \<Rightarrow> f x w')"

definition io_lift :: "error + 'a \<Rightarrow> 'a io" where
  "io_lift r w = (r, w)"

definition emit :: "event \<Rightarrow> world \<Rightarrow> world" where
  "emit e w = w\<lparr>trace := trace w @ [e]\<rparr>"

definition enter :: "call \<Rightarrow> unit io" where
  "enter c w = (Inr (), w\<lparr>calls := calls w @ [c]\<rparr>)"

subsection \<open>Strings\<close>

definition lower :: "char \<Rightarrow> char" where
  "lower c = (case map_of (zip ''ABCDEFGHIJKLMNOPQRSTUVWXYZ'' ''abcdefghijklmnopqrstuvwxyz'') c of
                None \<Rightarrow> c | Some l \<Rightarrow> l)"

definition isdigit :: "char \<Rightarrow> bool" where
  "isdigit c = (c \<in> set ''0123456789'')"

definition digit_char :: "nat \<Rightarrow> char" where
  "digit_char d = ''0123456789'' ! d"

function str_nat :: "nat \<Rightarrow> string" where
  "str_nat n = (if n < 10 then [digit_char n] else str_nat (n div 10) @ [digit_char (n mod 10)])"
  by pat_completeness auto
termination
  by (relation "measure id") auto

declare str_nat.simps [simp del]

section \<open>Prompt Store: \<^verbatim>\<open>load_prompts\<close>\<close>

text \<open>
  \<^verbatim>\<open>data.get("prompts", [])[:5]\<close> on the loaded document. Following the annotations of
  \<^verbatim>\<open>load_prompts\<close>, the document is a mapping whose \<^verbatim>\<open>prompts\<close> value, when present,
  is a list of prompt dictionaries. Opening or parsing the file may fail; the error is
  passed on.
\<close>

definition load_prompts :: "env \<Rightarrow> string \<Rightarrow> prompt list io" where
  "load_prompts E prompts_path =
     io_bind (io_lift (yaml_load E prompts_path)) (\<lambda>data.
       io_return (take 5 (case data ''prompts'' of None \<Rightarrow> [] | Some ps \<Rightarrow> ps)))"

section \<open>Judge Client: \<^verbatim>\<open>LLMClient\<close>\<close>

subsection \<open>Construction\<close>

text \<open>
  \<^verbatim>\<open>LLMClient.__init__\<close>. \<open>environ\<close> is \<^verbatim>\<open>os.environ\<close>. The provider name is
  lower-cased and compared with two ASCII names, for which lower-casing the letters A to Z
  decides the same equalities as \<^verbatim>\<open>str.lower\<close>. The test \<^verbatim>\<open>if not self.api_key\<close>
  holds for a missing variable and for an empty one. A client only exists once the
  constructor has returned, so its provider is one of the two it accepts.
\<close>

definition LLMClient_init :: "(string \<rightharpoonup> string) \<Rightarrow> string \<Rightarrow> string \<Rightarrow> error + client" where
  "LLMClient_init environ provider_name model_name =
     (let p = map lower provider_name in
      if p = ''openai'' then
        (case environ ''OPENAI_API_KEY'' of
           None \<Rightarrow> Inl (ValueError ''OPENAI_API_KEY environment variable is required'')
         | Some k \<Rightarrow>
             if k = [] then Inl (ValueError ''OPENAI_API_KEY environment variable is required'')
             else Inr \<lparr>provider = OpenAI, model = model_name, api_key = k,
                       api_url = ''https://api.openai.com/v1/chat/completions''\<rparr>)
      else if p = ''anthropic'' then
        (case environ ''ANTHROPIC_API_KEY'' of
           None \<Rightarrow> Inl (ValueError ''ANTHROPIC_API_KEY environment variable is required'')
         | Some k \<Rightarrow>
             if k = [] then Inl (ValueError ''ANTHROPIC_API_KEY environment variable is required'')
             else Inr \<lparr>provider = Anthropic, model = model_name, api_key = k,
                       api_url = ''https://api.anthropic.com/v1/messages''\<rparr>)
      else Inl (ValueError (''Unsupported provider: '' @ provider_name)))"

subsection \<open>\<^verbatim>\<open>generate_text\<close>\<close>

text \<open>
  One POST to the provider's endpoint. The request is recorded in the trace whether or
  not it succeeds. A status other than 200 raises an exception whose message holds the
  provider, the status and the body; a body without the expected field
  (\<^verbatim>\<open>choices[0].message.content\<close>, \<^verbatim>\<open>content[0].text\<close>) is a lookup error.
\<close>

definition default_max_tokens :: int where
  "default_max_tokens = 4000"

definition api_error :: "provider \<Rightarrow> response \<Rightarrow> error" where
  "api_error p r =
     APIError ((case p of OpenAI \<Rightarrow> ''OpenAI'' | Anthropic \<Rightarrow> ''Anthropic'')
               @ '' API error ('' @ str_nat (status_code r) @ ''): '' @ body_text r)"

definition generate_text :: "env \<Rightarrow> client \<Rightarrow> string \<Rightarrow> int \<Rightarrow> string io" where
  "generate_text E c prompt_text max_tokens w =
     (let w' = emit (HttpPost (api_url c) (model c) prompt_text max_tokens) w in
      case http E (trace w) c prompt_text max_tokens of
        Inl e \<Rightarrow> (Inl e, w')
      | Inr r \<Rightarrow>
          if status_code r \<noteq> 200 then (Inl (api_error (provider c) r), w')
          else (case content r of None \<Rightarrow> (Inl LookupError, w') | Some t \<Rightarrow> (Inr t, w')))"

subsection \<open>\<^verbatim>\<open>chunk_and_process\<close>\<close>

definition summary_prompt :: "string \<Rightarrow> string" where
  "summary_prompt v =
     ''Please summarize the following content concisely while preserving all key information:\<newline>\<newline>'' @ v"

definition summarization_note :: string where
  "summarization_note =
     ''Note: Some parts of the content have been summarized for processing.\<newline>\<newline>''"

text \<open>
  The loop over \<^verbatim>\<open>content.items()\<close>: the dictionary is walked in insertion order and
  \<^verbatim>\<open>summarized_content\<close> receives the same keys in the same order.
\<close>

fun summarize_items :: "env \<Rightarrow> client \<Rightarrow> (string \<times> string) list \<Rightarrow> (string \<times> string) list io" where
  "summarize_items E c [] = io_return []"
| "summarize_items E c ((k, v) # rest) =
     (if length v > 8000 then
        io_bind (generate_text E c (summary_prompt v) 2000) (\<lambda>s.
          io_bind (summarize_items E c rest) (\<lambda>done. io_return ((k, s) # done)))
      else
        io_bind (summarize_items E c rest) (\<lambda>done. io_return ((k, v) # done)))"

text \<open>
  \<^verbatim>\<open>len(prompt) / 4\<close> is Python's true division; dividing by four is exact in binary
  floating point and Python compares a float with an integer exactly, so the estimate is
  modelled as a rational number.
\<close>

definition chunk_and_process ::
  "env \<Rightarrow> client \<Rightarrow> string \<Rightarrow> (string \<times> string) list \<Rightarrow> int \<Rightarrow> string io" where
  "chunk_and_process E c prompt_template content_items max_tokens_per_chunk =
     io_bind (io_lift (format E prompt_template content_items)) (\<lambda>prompt_text.
       let estimated_tokens = (of_nat (length prompt_text) :: rat) / 4 in
       if estimated_tokens \<le> of_int max_tokens_per_chunk then
         generate_text E c prompt_text default_max_tokens
       else
         io_bind (summarize_items E c content_items) (\<lambda>summarized_content.
           io_bind (io_lift (format E prompt_template summarized_content)) (\<lambda>summarized_prompt.
             generate_text E c (summarization_note @ summarized_prompt) default_max_tokens)))"

section \<open>Agent Probe\<close>

text \<open>
  \<^verbatim>\<open>execute_query\<close> is whatever the user plugs in: the field \<open>agent\<close> of the
  environment, which may answer differently each time and may fail. The repository's
  own \<^verbatim>\<open>AgentWrapper.execute_query\<close> is the placeholder below.
\<close>

definition execute_query :: "env \<Rightarrow> string \<Rightarrow> string io" where
  "execute_query E query w = (agent E (trace w) query, emit (AgentQuery query) w)"

definition AgentWrapper_execute_query :: "string \<Rightarrow> string" where
  "AgentWrapper_execute_query query =
     ''This is a dummy response for the query: '' @ query @
     ''\<newline>\<newline>REASONING: I looked up information from my knowledge base.\<newline>\<newline>SOURCES: None''"

definition sleep :: "nat \<Rightarrow> unit io" where
  "sleep seconds w = (Inr (), emit (Sleep seconds) w)"

section \<open>Evaluation Engine: \<^verbatim>\<open>ReliabilityTester\<close>\<close>

subsection \<open>The three prompt templates\<close>

definition visibility_prompt :: string where
  \<open>visibility_prompt =
     ''\<newline>'' @
     ''You are an expert evaluator of AI agent reliability. Your task is to evaluate the visibility of an agent's response.\<newline>'' @
     ''\<newline>'' @
     ''Visibility means how clearly the agent explains its process, assumptions, and data sources.\<newline>'' @
     ''\<newline>'' @
     ''Please analyze the following user query and agent response:\<newline>'' @
     ''\<newline>'' @
     ''USER QUERY:\<newline>'' @
     ''{query}\<newline>'' @
     ''\<newline>'' @
     ''AGENT RESPONSE:\<newline>'' @
     ''{response}\<newline>'' @
     ''\<newline>'' @
     ''Evaluate the response on a scale of 1-10 for visibility, considering:\<newline>'' @
     ''1. Does the agent clearly indicate what data sources it's using?\<newline>'' @
     ''2. Does the agent explain its reasoning steps?\<newline>'' @
     ''3. Does the agent make its assumptions explicit?\<newline>'' @
     ''4. Would a user understand how conclusions were reached?\<newline>'' @
     ''5. Does the agent provide enough context to understand the scope of its answer?\<newline>'' @
     ''6. Is it clear what tools or functions the agent might be using?\<newline>'' @
     ''7. If calculations were performed, are they shown or explained?\<newline>'' @
     ''8. If there are limitations in the response, are they acknowledged?\<newline>'' @
     ''9. Would a domain expert be able to verify the agent's work based on what's shown?\<newline>'' @
     ''10. Does the agent show evidence of its information retrieval or generation process?\<newline>'' @
     ''\<newline>'' @
     ''Please provide your evaluation in this format:\<newline>'' @
     ''- Visibility Score: [1-10]\<newline>'' @
     ''- Strengths: [list what the agent does well for visibility]\<newline>'' @
     ''- Weaknesses: [list where the agent could improve visibility]\<newline>'' @
     ''- Detailed Analysis: [your analysis of the visibility]\<newline>''\<close>

definition repeatability_prompt :: string where
  \<open>repeatability_prompt =
     ''\<newline>'' @
     ''You are an expert evaluator of AI agent reliability. Your task is to evaluate the repeatability of an agent's responses.\<newline>'' @
     ''\<newline>'' @
     ''Repeatability means how consistent the agent's responses are when given the same input multiple times.\<newline>'' @
     ''\<newline>'' @
     ''Please analyze the following user query and the 5 agent responses to that same query:\<newline>'' @
     ''\<newline>'' @
     ''USER QUERY:\<newline>'' @
     ''{query}\<newline>'' @
     ''\<newline>'' @
     ''RESPONSE 1:\<newline>'' @
     ''{response_1}\<newline>'' @
     ''\<newline>'' @
     ''RESPONSE 2:\<newline>'' @
     ''{response_2}\<newline>'' @
     ''\<newline>'' @
     ''RESPONSE 3:\<newline>'' @
     ''{response_3}\<newline>'' @
     ''\<newline>'' @
     ''RESPONSE 4:\<newline>'' @
     ''{response_4}\<newline>'' @
     ''\<newline>'' @
     ''RESPONSE 5:\<newline>'' @
     ''{response_5}\<newline>'' @
     ''\<newline>'' @
     ''Evaluate the consistency on a scale of 1-10 for repeatability, considering:\<newline>'' @
     ''1. Do the core answers remain the same across responses?\<newline>'' @
     ''2. Are there any contradictions between responses?\<newline>'' @
     ''3. If there are differences, are they explained by randomness that's part of the agent's process?\<newline>'' @
     ''4. Do all responses use similar reasoning approaches?\<newline>'' @
     ''5. Are data sources consistent across responses?\<newline>'' @
     ''6. If calculations are performed, do they yield similar results?\<newline>'' @
     ''7. Is the structure and format of responses consistent?\<newline>'' @
     ''8. Are the steps taken by the agent consistent across responses?\<newline>'' @
     ''9. If there are variations, would they lead to different user decisions?\<newline>'' @
     ''10. Is the level of detail consistent across responses?\<newline>'' @
     ''\<newline>'' @
     ''Please provide your evaluation in this format:\<newline>'' @
     ''- Repeatability Score: [1-10]\<newline>'' @
     ''- Consistency Analysis: [analysis of how consistent the responses are]\<newline>'' @
     ''- Notable Differences: [highlight any important differences between responses]\<newline>'' @
     ''- Impact Assessment: [how differences might impact user trust or decision-making]\<newline>''\<close>

definition report_prompt :: string where
  \<open>report_prompt =
     ''\<newline>'' @
     ''You are an expert evaluator of AI agent reliability. Please create a comprehensive reliability report based on the visibility and repeatability evaluations.\<newline>'' @
     ''\<newline>'' @
     ''VISIBILITY EVALUATION:\<newline>'' @
     ''{visibility_evaluation}\<newline>'' @
     ''\<newline>'' @
     ''REPEATABILITY EVALUATION:\<newline>'' @
     ''{repeatability_evaluation}\<newline>'' @
     ''\<newline>'' @
     ''Create a reliability report with these sections:\<newline>'' @
     ''1. Executive Summary: Brief overview of the agent's reliability with an overall score out of 10 (equal weighting between visibility and repeatability).\<newline>'' @
     ''2. Visibility Analysis: Detailed assessment of how well the agent explains its process.\<newline>'' @
     ''3. Repeatability Analysis: Detailed assessment of the agent's consistency.\<newline>'' @
     ''4. Key Reliability Issues: Most important problems affecting reliability.\<newline>'' @
     ''5. Recommendations: Specific suggestions to improve the agent's reliability.\<newline>'' @
     ''6. Conclusion: Final thoughts on trustworthiness and usability.\<newline>'' @
     ''\<newline>'' @
     ''For the overall reliability score, calculate it as: (Visibility Score + Repeatability Score) / 2\<newline>'' @
     ''\<newline>'' @
     ''IMPORTANT: Always clearly state the overall reliability score in this exact format: "Overall Reliability Score: X.X/10" (where X.X is the numerical score).\<newline>'' @
     ''\<newline>'' @
     ''The report should be formatted in Markdown and be detailed enough to help the tester understand their agent's strengths and weaknesses.\<newline>''\<close>

subsection \<open>Evaluations\<close>

definition dict_lookup :: "(string \<rightharpoonup> string) \<Rightarrow> string \<Rightarrow> error + string" where
  "dict_lookup d k = (case d k of None \<Rightarrow> Inl (KeyError k) | Some v \<Rightarrow> Inr v)"

definition dict_get :: "(string \<rightharpoonup> string) \<Rightarrow> string \<Rightarrow> string \<Rightarrow> string" where
  "dict_get d k dflt = (case d k of None \<Rightarrow> dflt | Some v \<Rightarrow> v)"

definition py_index :: "'a list \<Rightarrow> nat \<Rightarrow> error + 'a" where
  "py_index xs i = (if i < length xs then Inr (xs ! i) else Inl IndexError)"

definition evaluate_visibility :: "env \<Rightarrow> tester \<Rightarrow> string \<Rightarrow> string \<Rightarrow> string io" where
  "evaluate_visibility E T query response_text =
     io_bind (enter (EvaluateVisibility query response_text)) (\<lambda>_.
       let prompt_data = [(''query'', query), (''response'', response_text)] in
       chunk_and_process E (llm_client T) visibility_prompt prompt_data
         (max_tokens_per_call (cfg T)))"

text \<open>
  The dictionary literal of \<^verbatim>\<open>evaluate_repeatability\<close> evaluates \<^verbatim>\<open>responses[0]\<close> to
  \<^verbatim>\<open>responses[4]\<close> in turn, before anything else is done.
\<close>

definition evaluate_repeatability :: "env \<Rightarrow> tester \<Rightarrow> string \<Rightarrow> string list \<Rightarrow> string io" where
  "evaluate_repeatability E T query responses =
     io_bind (enter (EvaluateRepeatability query responses)) (\<lambda>_.
     io_bind (io_lift (py_index responses 0)) (\<lambda>r1.
     io_bind (io_lift (py_index responses 1)) (\<lambda>r2.
     io_bind (io_lift (py_index responses 2)) (\<lambda>r3.
     io_bind (io_lift (py_index responses 3)) (\<lambda>r4.
     io_bind (io_lift (py_index responses 4)) (\<lambda>r5.
       let prompt_data = [(''query'', query), (''response_1'', r1), (''response_2'', r2),
                          (''response_3'', r3), (''response_4'', r4), (''response_5'', r5)] in
       chunk_and_process E (llm_client T) repeatability_prompt prompt_data
         (max_tokens_per_call (cfg T))))))))"

definition generate_report :: "env \<Rightarrow> tester \<Rightarrow> string \<Rightarrow> string \<Rightarrow> string io" where
  "generate_report E T visibility_eval repeatability_eval =
     (let prompt_data = [(''visibility_evaluation'', visibility_eval),
                         (''repeatability_evaluation'', repeatability_eval)] in
      chunk_and_process E (llm_client T) report_prompt prompt_data
        (max_tokens_per_call (cfg T)))"

subsection \<open>\<^verbatim>\<open>test_prompt\<close>\<close>

text \<open>
  The loop \<^verbatim>\<open>for i in range(self.repeat_count)\<close> with its accumulator
  \<^verbatim>\<open>responses\<close>; \<^verbatim>\<open>range\<close> of a negative number is empty, hence \<open>nat\<close> at the call.
\<close>

fun repeat_queries :: "env \<Rightarrow> string \<Rightarrow> nat \<Rightarrow> string list \<Rightarrow> string list io" where
  "repeat_queries E query 0 responses = io_return responses"
| "repeat_queries E query (Suc n) responses =
     io_bind (execute_query E query) (\<lambda>r.
     io_bind (sleep 1) (\<lambda>_.
       repeat_queries E query n (responses @ [r])))"

definition test_prompt :: "env \<Rightarrow> tester \<Rightarrow> prompt \<Rightarrow> prompt_result io" where
  "test_prompt E T p =
     io_bind (io_lift (dict_lookup p ''text'')) (\<lambda>query.
     io_bind (execute_query E query) (\<lambda>response_text.
     io_bind (evaluate_visibility E T query response_text) (\<lambda>visibility.
     io_bind (repeat_queries E query (nat (repeat_count (cfg T))) []) (\<lambda>responses.
     io_bind (evaluate_repeatability E T query responses) (\<lambda>repeatability.
     io_bind (generate_report E T visibility repeatability) (\<lambda>report_text.
       io_return \<lparr>prompt = p, visibility_evaluation = visibility,
                  repeatability_evaluation = repeatability, report = report_text\<rparr>))))))"

section \<open>Report Aggregator\<close>

subsection \<open>Regular expressions as \<^verbatim>\<open>re.search\<close> runs them\<close>

text \<open>
  The six patterns use literal characters, \<^verbatim>\<open>\d\<close>, \<^verbatim>\<open>.\<close>, the lazy \<^verbatim>\<open>.*?\<close>, the greedy
  \<^verbatim>\<open>\d+\<close>, an optional non-capturing group and one capturing group. \<open>rmatch\<close> lists the
  ways a pattern can match at the start of a text in the order in which Python's
  backtracking matcher tries them (a greedy repetition longest first, a lazy one shortest
  first, an optional group taken before it is skipped), so its head is the match that
  \<^verbatim>\<open>re.match\<close> reports. A match state is the text of group 1, if set, and the text left.
  With \<^verbatim>\<open>re.IGNORECASE\<close> a literal matches both cases of its letter; \<^verbatim>\<open>.\<close> matches all
  but a newline.
\<close>

datatype cclass = CLit char | CDigit | CDot

fun cmatch :: "cclass \<Rightarrow> char \<Rightarrow> bool" where
  "cmatch (CLit p) c = (lower c = lower p)"
| "cmatch CDigit c = isdigit c"
| "cmatch CDot c = (c \<noteq> CHR ''\<newline>'')"

datatype regex =
    Eps
  | Atom cclass
  | Seq regex regex
  | Opt regex
  | PlusG cclass
  | StarL cclass
  | Group regex

type_synonym mstate = "string option \<times> string"

fun lazy_star :: "cclass \<Rightarrow> string \<Rightarrow> string list" where
  "lazy_star c [] = [[]]"
| "lazy_star c (x # xs) = (x # xs) # (if cmatch c x then lazy_star c xs else [])"

fun greedy_plus :: "cclass \<Rightarrow> string \<Rightarrow> string list" where
  "greedy_plus c [] = []"
| "greedy_plus c (x # xs) = (if cmatch c x then greedy_plus c xs @ [xs] else [])"

fun rmatch :: "regex \<Rightarrow> mstate \<Rightarrow> mstate list" where
  "rmatch Eps st = [st]"
| "rmatch (Atom c) (g, s) =
     (case s of [] \<Rightarrow> [] | x # xs \<Rightarrow> if cmatch c x then [(g, xs)] else [])"
| "rmatch (Seq a b) st = concat (map (rmatch b) (rmatch a st))"
| "rmatch (Opt a) st = rmatch a st @ [st]"
| "rmatch (PlusG c) (g, s) = map (Pair g) (greedy_plus c s)"
| "rmatch (StarL c) (g, s) = map (Pair g) (lazy_star c s)"
| "rmatch (Group a) (g, s) =
     map (\<lambda>(_, r). (Some (take (length s - length r) s), r)) (rmatch a (g, s))"

text \<open>\<^verbatim>\<open>re.search\<close>: the first start position, from the left, at which the pattern matches.\<close>

fun re_search :: "regex \<Rightarrow> string \<Rightarrow> mstate option" where
  "re_search p [] = (case rmatch p (None, []) of [] \<Rightarrow> None | m # _ \<Rightarrow> Some m)"
| "re_search p (x # xs) =
     (case rmatch p (None, x # xs) of [] \<Rightarrow> re_search p xs | m # _ \<Rightarrow> Some m)"

text \<open>\<^verbatim>\<open>match.group(1)\<close>, as the f-string prints it.\<close>

definition group1 :: "mstate \<Rightarrow> string" where
  "group1 m = (case fst m of None \<Rightarrow> ''None'' | Some g \<Rightarrow> g)"

fun lits :: "string \<Rightarrow> regex" where
  "lits [] = Eps"
| "lits (c # cs) = Seq (Atom (CLit c)) (lits cs)"

text \<open>\<^verbatim>\<open>(\d+(?:\.\d+)?)\<close>\<close>

definition number :: regex where
  "number = Group (Seq (PlusG CDigit) (Opt (Seq (Atom (CLit (CHR ''.''))) (PlusG CDigit))))"

text \<open>
  \<^verbatim>\<open>overall score.*?(\d+(?:\.\d+)?)/10\<close>, \<^verbatim>\<open>overall score.*?(\d+(?:\.\d+)?)\<close>,
  \<^verbatim>\<open>reliability score.*?(\d+(?:\.\d+)?)/10\<close>, \<^verbatim>\<open>reliability score.*?(\d+(?:\.\d+)?)\<close>,
  \<^verbatim>\<open>score of (\d+(?:\.\d+)?)/10\<close>, \<^verbatim>\<open>score of (\d+(?:\.\d+)?)\<close>.
\<close>

definition score_patterns :: "regex list" where
  "score_patterns =
     [Seq (lits ''overall score'') (Seq (StarL CDot) (Seq number (lits ''/10''))),
      Seq (lits ''overall score'') (Seq (StarL CDot) number),
      Seq (lits ''reliability score'') (Seq (StarL CDot) (Seq number (lits ''/10''))),
      Seq (lits ''reliability score'') (Seq (StarL CDot) number),
      Seq (lits ''score of '') (Seq number (lits ''/10'')),
      Seq (lits ''score of '') number]"

text \<open>The loop over the patterns, with its \<^verbatim>\<open>break\<close> at the first match.\<close>

fun score_loop :: "regex list \<Rightarrow> string \<Rightarrow> string \<Rightarrow> string" where
  "score_loop [] report_text score = score"
| "score_loop (pattern # patterns) report_text score =
     (case re_search pattern report_text of
        Some score_match \<Rightarrow> group1 score_match
      | None \<Rightarrow> score_loop patterns report_text score)"

definition extract_score :: "string \<Rightarrow> string" where
  "extract_score report_text = score_loop score_patterns report_text ''N/A''"

text \<open>
  What the specification says of the score cell: the group of the first pattern, in the
  list's order, that matches somewhere in the report, and \<^verbatim>\<open>N/A\<close> when none does.
\<close>

definition first_matching_score :: "string \<Rightarrow> string" where
  "first_matching_score report_text =
     (case find (\<lambda>p. re_search p report_text \<noteq> None) score_patterns of
        None \<Rightarrow> ''N/A''
      | Some p \<Rightarrow> (case re_search p report_text of None \<Rightarrow> ''N/A'' | Some m \<Rightarrow> group1 m))"

subsection \<open>\<^verbatim>\<open>_combine_reports\<close>\<close>

text \<open>
  The default of \<^verbatim>\<open>.get("description", ...)\<close> is computed before the call, so a prompt
  without \<^verbatim>\<open>text\<close> raises even when it has a description.
\<close>

definition summary_row :: "prompt_result \<Rightarrow> error + string" where
  "summary_row result =
     (let prompt_id = dict_get (prompt result) ''id'' ''Unknown'' in
      case dict_lookup (prompt result) ''text'' of
        Inl e \<Rightarrow> Inl e
      | Inr t \<Rightarrow>
          let prompt_desc = dict_get (prompt result) ''description'' (take 30 t @ ''...'');
              score = extract_score (report result)
          in Inr (''| '' @ prompt_id @ '' | '' @ prompt_desc @ '' | '' @ score @ '' |\<newline>''))"

definition prompt_section :: "prompt_result \<Rightarrow> error + string" where
  "prompt_section result =
     (let prompt_id = dict_get (prompt result) ''id'' ''Unknown'' in
      case dict_lookup (prompt result) ''text'' of
        Inl e \<Rightarrow> Inl e
      | Inr t \<Rightarrow>
          Inr (''## Prompt: '' @ prompt_id @ ''\<newline>\<newline>'' @
               ''**Query**: '' @ t @ ''\<newline>\<newline>'' @
               report result @
               ''\<newline>\<newline>---\<newline>\<newline>''))"

text \<open>A loop \<^verbatim>\<open>for result in results: report += ...\<close>, stopped by the first error.\<close>

fun append_each :: "('a \<Rightarrow> error + string) \<Rightarrow> 'a list \<Rightarrow> string \<Rightarrow> error + string" where
  "append_each f [] report_text = Inr report_text"
| "append_each f (x # xs) report_text =
     (case f x of Inl e \<Rightarrow> Inl e | Inr s \<Rightarrow> append_each f xs (report_text @ s))"

definition report_header :: "env \<Rightarrow> tester \<Rightarrow> nat \<Rightarrow> event list \<Rightarrow> string" where
  "report_header E T n h =
     ''# Agent Reliability Testing Report\<newline>\<newline>'' @
     ''## Overview\<newline>\<newline>'' @
     ''- **Date**: '' @ strftime E h @ ''\<newline>'' @
     ''- **LLM Provider**: '' @ llm_provider (cfg T) @ ''\<newline>'' @
     ''- **LLM Model**: '' @ llm_model (cfg T) @ ''\<newline>'' @
     ''- **Number of prompts tested**: '' @ str_nat n @ ''\<newline>\<newline>'' @
     ''## Executive Summary\<newline>\<newline>'' @
     ''Below is an overview of the reliability testing results:\<newline>\<newline>'' @
     ''| Prompt ID | Prompt Description | Reliability Score |\<newline>'' @
     ''|-----------|-------------------|-------------------|\<newline>''"

definition combine_reports :: "env \<Rightarrow> tester \<Rightarrow> prompt_result list \<Rightarrow> string io" where
  "combine_reports E T results w =
     (case append_each summary_row results (report_header E T (length results) (trace w)) of
        Inl e \<Rightarrow> (Inl e, w)
      | Inr with_table \<Rightarrow> (append_each prompt_section results (with_table @ ''\<newline>''), w))"

section \<open>\<^verbatim>\<open>run_tests\<close>\<close>

fun test_all :: "env \<Rightarrow> tester \<Rightarrow> prompt list \<Rightarrow> prompt_result list \<Rightarrow> prompt_result list io" where
  "test_all E T [] all_results = io_return all_results"
| "test_all E T (p # ps) all_results =
     io_bind (test_prompt E T p) (\<lambda>results. test_all E T ps (all_results @ [results]))"

text \<open>
  \<^verbatim>\<open>open(report_path, 'w')\<close> followed by one \<^verbatim>\<open>write\<close>; opening fails on a path
  that cannot be written.
\<close>

definition write_file :: "env \<Rightarrow> string \<Rightarrow> string \<Rightarrow> unit io" where
  "write_file E path contents w =
     (if writable E path
      then (Inr (), (emit (FileWrite path contents) w)\<lparr>files := (files w)(path \<mapsto> contents)\<rparr>)
      else (Inl (OSError path), w))"

definition configured_report_path :: "tester \<Rightarrow> string" where
  "configured_report_path T =
     (case report_path (cfg T) of None \<Rightarrow> ''agent_reliability_report.md'' | Some p \<Rightarrow> p)"

definition run_tests :: "env \<Rightarrow> tester \<Rightarrow> string \<Rightarrow> string io" where
  "run_tests E T prompts_path =
     io_bind (load_prompts E prompts_path) (\<lambda>prompts.
       if prompts = [] then io_return ''Error: No prompts found in the specified file.''
       else
         io_bind (test_all E T prompts []) (\<lambda>all_results.
         io_bind (combine_reports E T all_results) (\<lambda>combined_report.
         io_bind (write_file E (configured_report_path T) combined_report) (\<lambda>_.
           io_return combined_report))))"

section \<open>An instance of the environment\<close>

text \<open>
  \<open>py_format\<close> is \<^verbatim>\<open>str.format(**kw)\<close> on templates whose replacement fields are plain
  keyword names, which is all the three templates above use: \<^verbatim>\<open>{name}\<close> is replaced by
  the value of \<open>name\<close>, \<^verbatim>\<open>{{\<close> and \<^verbatim>\<open>}}\<close> stand for a brace, a missing name is a
  \<^verbatim>\<open>KeyError\<close>, an unbalanced brace a \<^verbatim>\<open>ValueError\<close>. Conversions, format
  specifications, attribute and index lookups and positional fields are not modelled
  and are reported as \<open>OtherError\<close>. The second argument of \<open>py_format_from\<close> is the
  field name read so far, when inside a field.
\<close>

definition plain_name :: "string \<Rightarrow> bool" where
  "plain_name name =
     (name \<noteq> [] \<and> \<not> isdigit (hd name) \<and>
      list_all (\<lambda>c. c \<in> set ''abcdefghijklmnopqrstuvwxyzABCDEFGHIJKLMNOPQRSTUVWXYZ0123456789_'') name)"

fun py_format_from :: "(string \<times> string) list \<Rightarrow> string option \<Rightarrow> string \<Rightarrow> error + string" where
  "py_format_from kw None [] = Inr []"
| "py_format_from kw (Some name) [] = Inl (ValueError ''expected '}' before end of string'')"
| "py_format_from kw None (c # cs) =
     (if c = CHR ''{'' then
        (case cs of
           [] \<Rightarrow> Inl (ValueError ''Single '{' encountered in format string'')
         | d # ds \<Rightarrow>
             if d = CHR ''{'' then map_sum id ((#) (CHR ''{'')) (py_format_from kw None ds)
             else py_format_from kw (Some []) cs)
      else if c = CHR ''}'' then
        (case cs of
           [] \<Rightarrow> Inl (ValueError ''Single '}' encountered in format string'')
         | d # ds \<Rightarrow>
             if d = CHR ''}'' then map_sum id ((#) (CHR ''}'')) (py_format_from kw None ds)
             else Inl (ValueError ''Single '}' encountered in format string''))
      else map_sum id ((#) c) (py_format_from kw None cs))"
| "py_format_from kw (Some name) (c # cs) =
     (if c = CHR ''}'' then
        (if plain_name name then
           (case map_of kw name of
              None \<Rightarrow> Inl (KeyError name)
            | Some v \<Rightarrow> map_sum id ((@) v) (py_format_from kw None cs))
         else Inl (OtherError ''replacement field outside the model''))
      else py_format_from kw (Some (name @ [c])) cs)"

definition py_format :: "string \<Rightarrow> (string \<times> string) list \<Rightarrow> error + string" where
  "py_format template kw = py_format_from kw None template"

text \<open>
  A run in the style of the specification's end-to-end scenario: two prompts, the
  repository's placeholder agent, and a judge that always answers with the same text.
\<close>

definition example_client :: client where
  "example_client =
     \<lparr>provider = OpenAI, model = ''gpt-4'', api_key = ''sk-test'',
      api_url = ''https://api.openai.com/v1/chat/completions''\<rparr>"

definition example_tester :: tester where
  "example_tester =
     \<lparr>cfg = \<lparr>llm_provider = ''openai'', llm_model = ''gpt-4'', repeat_count = 5,
             max_tokens_per_call = 12000, report_path = None\<rparr>,
      llm_client = example_client\<rparr>"

definition example_document :: document where
  "example_document =
     [''prompts'' \<mapsto> [[''id'' \<mapsto> ''p1'', ''text'' \<mapsto> ''What is 2+2?''],
                      [''text'' \<mapsto> ''Name a prime.'']]]"

definition canned_judge :: "event list \<Rightarrow> client \<Rightarrow> string \<Rightarrow> int \<Rightarrow> error + response" where
  "canned_judge h c p m =
     Inr \<lparr>status_code = 200, body_text = [], content = Some ''Overall Reliability Score: 9.0/10''\<rparr>"

definition example_env :: env where
  "example_env =
     \<lparr>agent = (\<lambda>h q. Inr (AgentWrapper_execute_query q)),
      http = canned_judge,
      format = py_format,
      strftime = (\<lambda>h. ''2025-01-01 12:00:00''),
      yaml_load = (\<lambda>path. if path = ''prompts.yaml'' then Inr example_document
                           else Inl (OSError path)),
      writable = (\<lambda>path. True)\<rparr>"

definition empty_world :: world where
  "empty_world = \<lparr>trace = [], calls = [], files = Map.empty\<rparr>"

section \<open>Theorems\<close>

lemma io_bind_return [simp]: "io_bind (io_return x) f w = f x w"
  by (simp add: io_bind_def io_return_def)

lemma io_bind_raise [simp]: "io_bind (io_raise e) f w = (Inl e, w)"
  by (simp add: io_bind_def io_raise_def)

lemma io_bind_lift_Inr [simp]: "io_bind (io_lift (Inr x)) f w = f x w"
  by (simp add: io_bind_def io_lift_def)

lemma io_bind_lift_Inl [simp]: "io_bind (io_lift (Inl e)) f w = (Inl e, w)"
  by (simp add: io_bind_def io_lift_def)

text \<open>
  C5. Whatever list the document holds under \<^verbatim>\<open>prompts\<close>, \<^verbatim>\<open>load_prompts\<close> returns
  its first five entries (all of them when there are fewer), in the same order and
  unchanged, and touches nothing; a document without the key gives the empty list.
\<close>

theorem load_prompts_first_five:
  assumes "yaml_load E path = Inr data"
  shows "\<exists>loaded. load_prompts E path w = (Inr loaded, w)
           \<and> loaded = take 5 (case data ''prompts'' of None \<Rightarrow> [] | Some ps \<Rightarrow> ps)
           \<and> length loaded \<le> 5
           \<and> (data ''prompts'' = None \<longrightarrow> loaded = [])
           \<and> (\<forall>ps. data ''prompts'' = Some ps \<longrightarrow>
                 prefix loaded ps \<and> length loaded = min 5 (length ps)
                 \<and> (\<forall>i < length loaded. loaded ! i = ps ! i))"
  using assms
  by (auto simp: load_prompts_def io_return_def take_is_prefix split: option.splits)

theorem load_prompts_first_five_witness:
  "\<exists>loaded. load_prompts
       \<lparr>agent = (\<lambda>h q. Inr q), http = (\<lambda>h c p m. Inl (OtherError ''offline'')),
        format = (\<lambda>t kw. Inr t), strftime = (\<lambda>h. ''2025-01-01 00:00:00''),
        yaml_load = (\<lambda>p. Inr [''prompts'' \<mapsto> map (\<lambda>t. [''text'' \<mapsto> t])
                        [''a'', ''b'', ''c'', ''d'', ''e'', ''f'', ''g'']]),
        writable = (\<lambda>p. True)\<rparr> ''prompts.yaml''
       \<lparr>trace = [], calls = [], files = Map.empty\<rparr>
     = (Inr loaded, \<lparr>trace = [], calls = [], files = Map.empty\<rparr>)
     \<and> map (\<lambda>p. p ''text'') loaded = [Some ''a'', Some ''b'', Some ''c'', Some ''d'', Some ''e'']"
  using load_prompts_first_five
    [of "\<lparr>agent = (\<lambda>h q. Inr q), http = (\<lambda>h c p m. Inl (OtherError ''offline'')),
        format = (\<lambda>t kw. Inr t), strftime = (\<lambda>h. ''2025-01-01 00:00:00''),
        yaml_load = (\<lambda>p. Inr [''prompts'' \<mapsto> map (\<lambda>t. [''text'' \<mapsto> t])
                        [''a'', ''b'', ''c'', ''d'', ''e'', ''f'', ''g'']]),
        writable = (\<lambda>p. True)\<rparr>" "''prompts.yaml''"
        "[''prompts'' \<mapsto> map (\<lambda>t. [''text'' \<mapsto> t])
                        [''a'', ''b'', ''c'', ''d'', ''e'', ''f'', ''g'']]"
        "\<lparr>trace = [], calls = [], files = Map.empty\<rparr>"]
  by simp

end
